theory Spec2Isabelle
  imports Main "HOL-Library.Word"
begin

section \<open>The SSH session broker of shellhub\<close>

text \<open>
  Two functions of \<^verbatim>\<open>ssh/server\<close> are embedded here: the public-key callback
  \<^verbatim>\<open>PublicKey\<close> and the session-channel handler \<^verbatim>\<open>DefaultSessionHandler\<close>.
  Both are sequences of calls into other packages (the internal API client, the SSH
  library, the session entity). A call's result is an input of the model and the call
  itself is an entry of the trace the model returns, so that a property of the form
  ``the handler calls X, then Y'' is a property of the returned list. Log statements
  have no effect on control flow and are left out.
\<close>

subsection \<open>Data\<close>

type_synonym bytes = "8 word list"

text \<open>A Go \<^verbatim>\<open>error\<close> value; \<open>None\<close> stands for \<^verbatim>\<open>nil\<close>.\<close>

type_synonym error = string

text \<open>
  Modelled from the spec: the declarations of \<^verbatim>\<open>session.Pty\<close> and
  \<^verbatim>\<open>session.Dimensions\<close> are not part of the sources at hand. The handler reads
  and writes the fields \<open>Columns\<close> and \<open>Rows\<close> only; the remaining fields
  are those of the \<^verbatim>\<open>pty-req\<close> and \<^verbatim>\<open>window-change\<close> payloads of RFC 4254.
\<close>

record Pty =
  Term :: string
  Columns :: "32 word"
  Rows :: "32 word"
  Width :: "32 word"
  Height :: "32 word"
  Modelist :: bytes

record Dimensions =
  dim_Columns :: "32 word"
  dim_Rows :: "32 word"
  dim_Width :: "32 word"
  dim_Height :: "32 word"

text \<open>The zero value of \<^verbatim>\<open>var pty session.Pty\<close>.\<close>

definition zero_Pty :: Pty where
  "zero_Pty = \<lparr>Term = [], Columns = 0, Rows = 0, Width = 0, Height = 0, Modelist = []\<rparr>"

text \<open>An \<^verbatim>\<open>ssh.Request\<close>: the three fields the handler reads.\<close>

record request =
  Type :: string
  WantReply :: bool
  Payload :: bytes

definition ShellRequestType :: string where
  "ShellRequestType = ''shell''"

definition ExecRequestType :: string where
  "ExecRequestType = ''exec''"

definition SubsystemRequestType :: string where
  "SubsystemRequestType = ''subsystem''"

definition PtyRequestType :: string where
  "PtyRequestType = ''pty-req''"

definition WindowChangeRequestType :: string where
  "WindowChangeRequestType = ''window-change''"

definition KeepAliveRequestType :: string where
  "KeepAliveRequestType = ''keepalive''"

subsection \<open>The trace of the session handler\<close>

text \<open>
  One constructor for each call the handler makes on its collaborators. A
  \<open>Reply\<close> carries the request it answers, the boolean sent and the payload
  (\<open>None\<close> for \<^verbatim>\<open>nil\<close>, \<open>Some []\<close> for \<^verbatim>\<open>[]byte{}\<close>). \<open>Reject\<close> is
  a call of the local closure \<^verbatim>\<open>reject\<close>, which logs the message and calls
  \<^verbatim>\<open>newChan.Reject(gossh.ConnectionFailed, msg)\<close>.
\<close>

datatype action =
    Reject string
  | NewChanAccept
  | AgentOpenChannel
  | KeepAlive
  | GlobalReply request bool "bytes option"
  | AgentSendRequest string bool bytes
  | ClientReply request bool "bytes option"
  | ClientSendRequest string bool bytes
  | AgentReply request bool "bytes option"
  | Announce
  | StartPipe string
  | AgentClose
  | ClientClose
  | SessFinish
  | ConnClose

text \<open>
  The results of the calls one iteration of the loop may make. Every branch makes at
  most one call of each kind, so one record per iteration is enough.
  \<open>send_res\<close> is the pair returned by \<^verbatim>\<open>SendRequest\<close>; \<open>unmarshal_pty\<close> and
  \<open>unmarshal_dims\<close> are the error returned by \<^verbatim>\<open>gossh.Unmarshal\<close> on the
  request's payload together with the contents it left in the zero-initialised
  destination struct.
\<close>

record outcomes =
  keepalive_err :: "error option"
  send_res :: "bool \<times> error option"
  reply_err :: "error option"
  unmarshal_pty :: "error option \<times> Pty"
  unmarshal_dims :: "error option \<times> Dimensions"

text \<open>
  What the \<^verbatim>\<open>select\<close> statement receives: the context's done signal, or a value
  from one of the three request channels, \<open>None\<close> when the channel is closed
  (\<^verbatim>\<open>ok == false\<close>).
\<close>

datatype event =
    CtxDone
  | AgentGlobalReqs "request option"
  | ClientReqs "request option"
  | AgentReqs "request option"

text \<open>
  The state the loop mutates: the local variable \<^verbatim>\<open>started\<close> and the field
  \<^verbatim>\<open>sess.Pty\<close>.
\<close>

record loop_state =
  started :: bool
  sess_Pty :: Pty

text \<open>How an iteration ends: the loop goes on, or the handler returns.\<close>

datatype flow = Continue | Return

type_synonym iteration = "action list \<times> loop_state \<times> flow"

subsection \<open>One iteration of the multiplex loop\<close>

text \<open>\<^verbatim>\<open>case req, ok := <-sess.AgentGlobalReqs\<close>, with \<^verbatim>\<open>ok == true\<close>.\<close>

definition agentGlobalReq :: "loop_state \<Rightarrow> request \<Rightarrow> outcomes \<Rightarrow> iteration" where
  "agentGlobalReq st req oc =
     (if Type req = KeepAliveRequestType then
        (if keepalive_err oc \<noteq> None then ([KeepAlive], st, Return)
         else ([KeepAlive, GlobalReply req False None], st, Continue))
      else if WantReply req then ([GlobalReply req False None], st, Continue)
      else ([], st, Continue))"

text \<open>\<^verbatim>\<open>case req, ok := <-clientReqs\<close>, with \<^verbatim>\<open>ok == true\<close>.\<close>

definition clientReq :: "loop_state \<Rightarrow> request \<Rightarrow> outcomes \<Rightarrow> iteration" where
  "clientReq st req oc =
     (let ok = fst (send_res oc);
          err = snd (send_res oc);
          sent = [AgentSendRequest (Type req) (WantReply req) (Payload req)]
      in
      if err \<noteq> None then (sent, st, Continue)
      else if Type req = ShellRequestType \<or> Type req = ExecRequestType
              \<or> Type req = SubsystemRequestType then
        (if \<not> started st then
           (if WantReply req then
              (if reply_err oc \<noteq> None then (sent @ [ClientReply req ok (Some [])], st, Return)
               else (sent @ [ClientReply req ok (Some [])]
                       @ (if Type req = ShellRequestType then [Announce] else [])
                       @ [StartPipe (Type req)],
                     st\<lparr>started := True\<rparr>, Continue))
            else (sent, st, Continue))
         else
           (if reply_err oc \<noteq> None then (sent @ [ClientReply req False None], st, Return)
            else (sent @ [ClientReply req False None], st, Continue)))
      else if Type req = PtyRequestType then
        (let rejected = (if fst (unmarshal_pty oc) \<noteq> None
                         then [Reject ''failed to recover the session dimensions''] else []);
             st' = st\<lparr>sess_Pty := snd (unmarshal_pty oc)\<rparr>
         in
         if WantReply req then
           (if reply_err oc \<noteq> None then (sent @ rejected @ [ClientReply req ok None], st', Return)
            else (sent @ rejected @ [ClientReply req ok None], st', Continue))
         else (sent @ rejected, st', Continue))
      else if Type req = WindowChangeRequestType then
        (let rejected = (if fst (unmarshal_dims oc) \<noteq> None
                         then [Reject ''failed to recover the session dimensions''] else []);
             dimensions = snd (unmarshal_dims oc);
             st' = st\<lparr>sess_Pty := (sess_Pty st)\<lparr>Columns := dim_Columns dimensions,
                                                 Rows := dim_Rows dimensions\<rparr>\<rparr>
         in
         if WantReply req then (sent @ rejected @ [ClientReply req ok None], st', Continue)
         else (sent @ rejected, st', Continue))
      else
        (if WantReply req then
           (if reply_err oc \<noteq> None then (sent @ [ClientReply req ok None], st, Return)
            else (sent @ [ClientReply req ok None], st, Continue))
         else (sent, st, Continue)))"

text \<open>\<^verbatim>\<open>case req, ok := <-agentReqs\<close>, with \<^verbatim>\<open>ok == true\<close>.\<close>

definition agentReq :: "loop_state \<Rightarrow> request \<Rightarrow> outcomes \<Rightarrow> iteration" where
  "agentReq st req oc =
     (let ok = fst (send_res oc);
          err = snd (send_res oc);
          sent = [ClientSendRequest (Type req) (WantReply req) (Payload req)]
      in
      if err \<noteq> None then (sent, st, Continue)
      else if WantReply req then
        (if reply_err oc \<noteq> None then (sent @ [AgentReply req ok None], st, Return)
         else (sent @ [AgentReply req ok None], st, Continue))
      else (sent, st, Continue))"

text \<open>The body of the \<^verbatim>\<open>select\<close> statement.\<close>

fun select :: "loop_state \<Rightarrow> event \<Rightarrow> outcomes \<Rightarrow> iteration" where
  "select st CtxDone oc = ([], st, Return)"
| "select st (AgentGlobalReqs None) oc = ([], st, Return)"
| "select st (AgentGlobalReqs (Some req)) oc = agentGlobalReq st req oc"
| "select st (ClientReqs None) oc = ([], st, Return)"
| "select st (ClientReqs (Some req)) oc = clientReq st req oc"
| "select st (AgentReqs None) oc = ([], st, Return)"
| "select st (AgentReqs (Some req)) oc = agentReq st req oc"

subsection \<open>The loop and the handler\<close>

text \<open>
  The \<^verbatim>\<open>for { select { ... } }\<close> loop, run on the events that arrive. It has no exit
  of its own: when the events at hand are used up it is still waiting
  (\<open>Continue\<close>); it ends (\<open>Return\<close>) only at an iteration that returns, and the
  events after that one are never received.
\<close>

fun loop :: "loop_state \<Rightarrow> (event \<times> outcomes) list \<Rightarrow> iteration" where
  "loop st [] = ([], st, Continue)"
| "loop st ((ev, oc) # evs) =
     (case select st ev oc of
        (acts, st', Return) \<Rightarrow> (acts, st', Return)
      | (acts, st', Continue) \<Rightarrow>
          (case loop st' evs of (acts', st'', fl) \<Rightarrow> (acts @ acts', st'', fl)))"

text \<open>
  What the handler finds when it starts: the session stored in the context (its
  \<^verbatim>\<open>Pty\<close> field; \<open>None\<close> when the type assertion fails), and the errors of
  \<^verbatim>\<open>newChan.Accept()\<close> and \<^verbatim>\<open>sess.Agent.OpenChannel\<close>.
\<close>

record handler_setup =
  ctx_session :: "Pty option"
  accept_err :: "error option"
  open_err :: "error option"

text \<open>
  \<^verbatim>\<open>DefaultSessionHandler\<close>. The deferred calls are kept on a stack, last
  registered first, and run when the handler returns. The result is the trace, the
  final session state when there is a session, and whether the handler has returned.
\<close>

definition DefaultSessionHandler ::
  "handler_setup \<Rightarrow> (event \<times> outcomes) list \<Rightarrow> action list \<times> loop_state option \<times> flow" where
  "DefaultSessionHandler s evs =
     (let deferred0 = [ConnClose] in
      case ctx_session s of
        None \<Rightarrow> ([Reject ''failed to recover the session created''] @ deferred0, None, Return)
      | Some pty \<Rightarrow>
          (let deferred1 = SessFinish # deferred0;
               st0 = \<lparr>started = False, sess_Pty = pty\<rparr>
           in
           if accept_err s \<noteq> None then
             ([NewChanAccept, Reject ''failed to accept the channel opening''] @ deferred1,
              Some st0, Return)
           else
             (let deferred2 = ClientClose # deferred1 in
              if open_err s \<noteq> None then
                ([NewChanAccept, AgentOpenChannel,
                  Reject ''failed to open the 'session' channel on agent''] @ deferred2,
                 Some st0, Return)
              else
                (let deferred3 = AgentClose # deferred2 in
                 case loop st0 evs of
                   (acts, st, Return) \<Rightarrow>
                     ([NewChanAccept, AgentOpenChannel] @ acts @ deferred3, Some st, Return)
                 | (acts, st, Continue) \<Rightarrow>
                     ([NewChanAccept, AgentOpenChannel] @ acts, Some st, Continue)))))"

subsection \<open>The public-key callback\<close>

text \<open>
  Modelled from the spec: the declarations of \<^verbatim>\<open>target.Target\<close> and
  \<^verbatim>\<open>models.Device\<close> are not part of the sources at hand; the fields below are the
  ones \<^verbatim>\<open>PublicKey\<close> reads.
\<close>

record target =
  Data :: string
  Username :: string

record device =
  Name :: string
  Namespace :: string
  TenantID :: string

text \<open>
  The collaborators of \<^verbatim>\<open>PublicKey\<close>, as parameters: the value stored in the
  handshake context under \<^verbatim>\<open>ContextKeyUser\<close> (\<open>None\<close> when the type assertion
  fails), the fingerprint function of the SSH library, the target package, the result
  of building the magic public key, and the four calls of the internal API client. A
  call that returns \<^verbatim>\<open>(value, err)\<close> and whose value is read only when
  \<^verbatim>\<open>err == nil\<close> is a sum; \<^verbatim>\<open>DeviceLookup\<close> returns a device and a list of
  errors, \<^verbatim>\<open>EvaluateKey\<close> a boolean and an error.
\<close>

record 'k auth_env =
  ctx_user :: "string option"
  FingerprintLegacyMD5 :: "'k \<Rightarrow> string"
  NewTarget :: "string \<Rightarrow> error + target"
  IsSSHID :: "target \<Rightarrow> bool"
  SplitSSHID :: "target \<Rightarrow> error + (string \<times> string)"
  magic_NewPublicKey :: "error + 'k"
  api_GetDevice :: "string \<Rightarrow> error + device"
  api_DeviceLookup :: "(string \<times> string) list \<Rightarrow> device \<times> error list"
  api_GetPublicKey :: "string \<Rightarrow> string \<Rightarrow> error option"
  api_EvaluateKey :: "string \<Rightarrow> device \<Rightarrow> string \<Rightarrow> bool \<times> error option"

text \<open>The calls made on the API client, each with its arguments and what it returned.\<close>

datatype api_call =
    GetDevice string "error option"
  | DeviceLookup "(string \<times> string) list" "error list"
  | GetPublicKey string string "error option"
  | EvaluateKey string device string "bool \<times> error option"

text \<open>
  The boolean returned, the API calls made, and the value stored in the context under
  \<^verbatim>\<open>"public_key"\<close>, if any.
\<close>

record auth_result =
  accepted :: bool
  calls :: "api_call list"
  ctx_public_key :: "string option"

definition reject_key :: "api_call list \<Rightarrow> auth_result" where
  "reject_key cs = \<lparr>accepted = False, calls = cs, ctx_public_key = None\<rparr>"

definition accept_key :: "api_call list \<Rightarrow> string \<Rightarrow> auth_result" where
  "accept_key cs fingerprint = \<lparr>accepted = True, calls = cs, ctx_public_key = Some fingerprint\<rparr>"

text \<open>
  The \<^verbatim>\<open>if tag.IsSSHID() { ... } else { ... }\<close> block that builds the \<^verbatim>\<open>lookup\<close>
  map: \<open>Inl\<close> where it returns false, with the calls made so far on either side.
\<close>

definition build_lookup ::
  "'k auth_env \<Rightarrow> target \<Rightarrow> api_call list + (api_call list \<times> (string \<times> string) list)" where
  "build_lookup env tag =
     (if IsSSHID env tag then
        (case SplitSSHID env tag of
           Inl err \<Rightarrow> Inl []
         | Inr (namespace, hostname) \<Rightarrow>
             Inr ([], [(''domain'', namespace), (''name'', hostname)]))
      else
        (case api_GetDevice env (Data tag) of
           Inl err \<Rightarrow> Inl [GetDevice (Data tag) (Some err)]
         | Inr device \<Rightarrow>
             Inr ([GetDevice (Data tag) None],
                  [(''domain'', Namespace device), (''name'', Name device)])))"

text \<open>
  The part of \<^verbatim>\<open>PublicKey\<close> from the construction of the magic public key to the
  end, given the device found and the calls made so far.
\<close>

definition check_key ::
  "'k auth_env \<Rightarrow> string \<Rightarrow> target \<Rightarrow> device \<Rightarrow> api_call list \<Rightarrow> auth_result" where
  "check_key env fingerprint tag device cs =
     (case magic_NewPublicKey env of
        Inl err \<Rightarrow> reject_key cs
      | Inr magicPubKey \<Rightarrow>
          (if FingerprintLegacyMD5 env magicPubKey \<noteq> fingerprint then
             (case api_GetPublicKey env fingerprint (TenantID device) of
                Some err \<Rightarrow>
                  reject_key (cs @ [GetPublicKey fingerprint (TenantID device) (Some err)])
              | None \<Rightarrow>
                  (let res = api_EvaluateKey env fingerprint device (Username tag);
                       cs' = cs @ [GetPublicKey fingerprint (TenantID device) None,
                                   EvaluateKey fingerprint device (Username tag) res]
                   in
                   if \<not> fst res \<or> snd res \<noteq> None then reject_key cs'
                   else accept_key cs' fingerprint))
           else accept_key cs fingerprint))"

definition PublicKey :: "'k auth_env \<Rightarrow> 'k \<Rightarrow> auth_result" where
  "PublicKey env pubKey =
     (let fingerprint = FingerprintLegacyMD5 env pubKey in
      case ctx_user env of
        None \<Rightarrow> reject_key []
      | Some sshid \<Rightarrow>
          (case NewTarget env sshid of
             Inl err \<Rightarrow> reject_key []
           | Inr tag \<Rightarrow>
               (case build_lookup env tag of
                  Inl cs \<Rightarrow> reject_key cs
                | Inr (cs, lookup) \<Rightarrow>
                    (let device = fst (api_DeviceLookup env lookup);
                         errs = snd (api_DeviceLookup env lookup);
                         cs' = cs @ [DeviceLookup lookup errs]
                     in
                     if length errs > 0 then reject_key cs'
                     else check_key env fingerprint tag device cs'))))"

subsection \<open>Predicates on requests and traces\<close>

text \<open>A request that starts a program: \<^verbatim>\<open>shell\<close>, \<^verbatim>\<open>exec\<close> or \<^verbatim>\<open>subsystem\<close>.\<close>

definition program_request :: "request \<Rightarrow> bool" where
  "program_request req =
     (Type req = ShellRequestType \<or> Type req = ExecRequestType \<or> Type req = SubsystemRequestType)"

fun is_pipe :: "action \<Rightarrow> bool" where
  "is_pipe (StartPipe t) = True"
| "is_pipe _ = False"

text \<open>A reply \<^verbatim>\<open>true\<close> sent to the client on a program request.\<close>

fun positive_program_reply :: "action \<Rightarrow> bool" where
  "positive_program_reply (ClientReply req ok p) = (ok \<and> program_request req)"
| "positive_program_reply _ = False"

fun is_client_reply :: "action \<Rightarrow> bool" where
  "is_client_reply (ClientReply req ok p) = True"
| "is_client_reply _ = False"

fun is_agent_reply :: "action \<Rightarrow> bool" where
  "is_agent_reply (AgentReply req ok p) = True"
| "is_agent_reply _ = False"

text \<open>The four calls the handler defers once both channels are open, in the order they run.\<close>

definition teardown :: "action list" where
  "teardown = [AgentClose, ClientClose, SessFinish, ConnClose]"

text \<open>An API call that returned an error, an error list, or \<^verbatim>\<open>false\<close>.\<close>

fun call_failed :: "api_call \<Rightarrow> bool" where
  "call_failed (GetDevice uid err) = (err \<noteq> None)"
| "call_failed (DeviceLookup lookup errs) = (errs \<noteq> [])"
| "call_failed (GetPublicKey fingerprint tenant err) = (err \<noteq> None)"
| "call_failed (EvaluateKey fingerprint dev user res) = (\<not> fst res \<or> snd res \<noteq> None)"

fun is_key_call :: "api_call \<Rightarrow> bool" where
  "is_key_call (GetPublicKey fingerprint tenant err) = True"
| "is_key_call (EvaluateKey fingerprint dev user res) = True"
| "is_key_call _ = False"

subsection \<open>Example inputs\<close>

definition ex_pty :: Pty where
  "ex_pty = \<lparr>Term = ''xterm'', Columns = 80, Rows = 24, Width = 0, Height = 0, Modelist = []\<rparr>"

definition ex_setup :: handler_setup where
  "ex_setup = \<lparr>ctx_session = Some ex_pty, accept_err = None, open_err = None\<rparr>"

definition ex_request :: "string \<Rightarrow> bool \<Rightarrow> request" where
  "ex_request t w = \<lparr>Type = t, WantReply = w, Payload = []\<rparr>"

text \<open>Every call succeeds; the decoders find the dimensions given.\<close>

definition ex_ok :: "32 word \<Rightarrow> 32 word \<Rightarrow> outcomes" where
  "ex_ok c r =
     \<lparr>keepalive_err = None, send_res = (True, None), reply_err = None,
      unmarshal_pty = (None, ex_pty\<lparr>Columns := c, Rows := r\<rparr>),
      unmarshal_dims = (None, \<lparr>dim_Columns = c, dim_Rows = r, dim_Width = 0, dim_Height = 0\<rparr>)\<rparr>"

text \<open>Forwarding the request to the other side fails.\<close>

definition ex_send_fails :: outcomes where
  "ex_send_fails = (ex_ok 0 0)\<lparr>send_res := (False, Some ''EOF'')\<rparr>"

text \<open>The reply to the request fails.\<close>

definition ex_reply_fails :: outcomes where
  "ex_reply_fails = (ex_ok 100 30)\<lparr>reply_err := Some ''EOF''\<rparr>"

text \<open>The keep-alive call fails.\<close>

definition ex_keepalive_fails :: outcomes where
  "ex_keepalive_fails = (ex_ok 0 0)\<lparr>keepalive_err := Some ''timeout''\<rparr>"

text \<open>The payload does not decode, and the destination struct keeps its zero value.\<close>

definition ex_unmarshal_fails :: outcomes where
  "ex_unmarshal_fails =
     (ex_ok 0 0)\<lparr>unmarshal_pty := (Some ''ssh: short read'', zero_Pty),
                 unmarshal_dims := (Some ''ssh: short read'',
                    \<lparr>dim_Columns = 0, dim_Rows = 0, dim_Width = 0, dim_Height = 0\<rparr>)\<rparr>"

definition ex_device :: device where
  "ex_device = \<lparr>Name = ''mydevice'', Namespace = ''example'', TenantID = ''tenant-1''\<rparr>"

text \<open>
  An environment in which every stage succeeds, for the login \<^verbatim>\<open>mydevice.example\<close>;
  keys are identified with their fingerprints, and the magic key is \<^verbatim>\<open>magic\<close>.
\<close>

definition ex_env :: "string auth_env" where
  "ex_env =
     \<lparr>ctx_user = Some ''mydevice.example'',
      FingerprintLegacyMD5 = (\<lambda>k. k),
      NewTarget = (\<lambda>sshid. Inr \<lparr>Data = sshid, Username = ''root''\<rparr>),
      IsSSHID = (\<lambda>tag. True),
      SplitSSHID = (\<lambda>tag. Inr (''example'', ''mydevice'')),
      magic_NewPublicKey = Inr ''magic'',
      api_GetDevice = (\<lambda>uid. Inl ''not found''),
      api_DeviceLookup = (\<lambda>lookup. (ex_device, [])),
      api_GetPublicKey = (\<lambda>fingerprint tenant. None),
      api_EvaluateKey = (\<lambda>fingerprint dev user. (True, None))\<rparr>"

lemmas request_types =
  ShellRequestType_def ExecRequestType_def SubsystemRequestType_def
  PtyRequestType_def WindowChangeRequestType_def KeepAliveRequestType_def

lemmas examples =
  ex_pty_def ex_setup_def ex_request_def ex_ok_def ex_send_fails_def ex_reply_fails_def
  ex_keepalive_fails_def ex_unmarshal_fails_def zero_Pty_def

section \<open>Properties of the session handler\<close>

subsection \<open>The loop\<close>

lemma loop_append:
  "loop st (xs @ ys) =
     (case loop st xs of
        (a, st', Return) \<Rightarrow> (a, st', Return)
      | (a, st', Continue) \<Rightarrow> (case loop st' ys of (a', st'', f) \<Rightarrow> (a @ a', st'', f)))"
  by (induction xs arbitrary: st) (auto split: prod.splits flow.splits)

text \<open>Once \<^verbatim>\<open>started\<close> is set it stays set.\<close>

lemma clientReq_started:
  "started st \<Longrightarrow> started (fst (snd (clientReq st req oc)))"
  by (simp add: clientReq_def Let_def)

lemma select_started:
  "started st \<Longrightarrow> started (fst (snd (select st ev oc)))"
  by (cases "(st, ev, oc)" rule: select.cases)
     (simp_all add: clientReq_started agentGlobalReq_def agentReq_def Let_def)

text \<open>With \<^verbatim>\<open>started\<close> set, no iteration starts a pipe or replies \<^verbatim>\<open>true\<close> to a program request.\<close>

lemma clientReq_started_quiet:
  "started st \<Longrightarrow> filter is_pipe (fst (clientReq st req oc)) = []
     \<and> filter positive_program_reply (fst (clientReq st req oc)) = []"
  by (simp add: clientReq_def Let_def program_request_def)

lemma select_started_quiet:
  "started st \<Longrightarrow> filter is_pipe (fst (select st ev oc)) = []
     \<and> filter positive_program_reply (fst (select st ev oc)) = []"
  by (cases "(st, ev, oc)" rule: select.cases)
     (simp_all add: clientReq_started_quiet agentGlobalReq_def agentReq_def Let_def)

lemma loop_started_quiet:
  "started st \<Longrightarrow> filter is_pipe (fst (loop st evs)) = []
     \<and> filter positive_program_reply (fst (loop st evs)) = []"
proof (induction evs arbitrary: st)
  case Nil
  then show ?case by simp
next
  case (Cons p evs)
  obtain ev oc where p: "p = (ev, oc)" by (cases p)
  obtain a st' f where s: "select st ev oc = (a, st', f)" by (cases "select st ev oc")
  from Cons.prems select_started [of st ev oc] s have st': "started st'" by simp
  from Cons.prems select_started_quiet [of st ev oc] s
  have a: "filter is_pipe a = []" "filter positive_program_reply a = []" by simp_all
  show ?case
  proof (cases f)
    case Return
    with p s a show ?thesis by simp
  next
    case Continue
    with p s a Cons.IH [OF st'] show ?thesis by (auto split: prod.splits)
  qed
qed

text \<open>
  With \<^verbatim>\<open>started\<close> unset, an iteration starts at most one pipe and sends at most one
  positive reply, and if it does either, it sets \<^verbatim>\<open>started\<close> or returns.
\<close>

lemma clientReq_unstarted:
  "\<not> started st \<Longrightarrow>
     (length (filter is_pipe (fst (clientReq st req oc))) \<le> 1
        \<and> length (filter positive_program_reply (fst (clientReq st req oc))) \<le> 1)
     \<and> (started (fst (snd (clientReq st req oc))) \<or> snd (snd (clientReq st req oc)) = Return
         \<or> (filter is_pipe (fst (clientReq st req oc)) = []
              \<and> filter positive_program_reply (fst (clientReq st req oc)) = []))"
  by (simp add: clientReq_def Let_def program_request_def)

lemma select_unstarted:
  assumes "\<not> started st"
  shows "(length (filter is_pipe (fst (select st ev oc))) \<le> 1
        \<and> length (filter positive_program_reply (fst (select st ev oc))) \<le> 1)
     \<and> (started (fst (snd (select st ev oc))) \<or> snd (snd (select st ev oc)) = Return
         \<or> (filter is_pipe (fst (select st ev oc)) = []
              \<and> filter positive_program_reply (fst (select st ev oc)) = []))"
proof (cases "(st, ev, oc)" rule: select.cases)
  case (5 st' req oc')
  then show ?thesis using clientReq_unstarted [OF assms, of req oc] by simp
qed (simp_all add: agentGlobalReq_def agentReq_def Let_def)

lemma loop_at_most_one:
  "length (filter is_pipe (fst (loop st evs))) \<le> 1
     \<and> length (filter positive_program_reply (fst (loop st evs))) \<le> 1"
proof (induction evs arbitrary: st)
  case Nil
  show ?case by simp
next
  case (Cons p evs)
  obtain ev oc where p: "p = (ev, oc)" by (cases p)
  obtain a st' f where s: "select st ev oc = (a, st', f)" by (cases "select st ev oc")
  show ?case
  proof (cases "started st")
    case True
    then show ?thesis using loop_started_quiet [of st "p # evs"] by simp
  next
    case False
    note u = select_unstarted [OF False, of ev oc]
    show ?thesis
    proof (cases f)
      case Return
      with p s u show ?thesis by simp
    next
      case Continue
      show ?thesis
      proof (cases "started st'")
        case True
        with p s u Continue loop_started_quiet [of st' evs] show ?thesis
          by (auto split: prod.splits)
      next
        case False
        with p s u Continue Cons.IH [of st'] show ?thesis
          by (auto split: prod.splits)
      qed
    qed
  qed
qed

subsection \<open>The handler around the loop\<close>

text \<open>A handler that has not returned has a session, both channels open, and is in the loop.\<close>

lemma handler_running:
  assumes "snd (snd (DefaultSessionHandler s evs)) = Continue"
  obtains pty where "ctx_session s = Some pty" and "accept_err s = None" and "open_err s = None"
    and "snd (snd (loop \<lparr>started = False, sess_Pty = pty\<rparr> evs)) = Continue"
    and "fst (DefaultSessionHandler s evs) =
           [NewChanAccept, AgentOpenChannel] @ fst (loop \<lparr>started = False, sess_Pty = pty\<rparr> evs)"
    and "fst (snd (DefaultSessionHandler s evs)) =
           Some (fst (snd (loop \<lparr>started = False, sess_Pty = pty\<rparr> evs)))"
  using assms
  by (auto simp: DefaultSessionHandler_def Let_def
           split: option.splits if_splits prod.splits flow.splits)

lemma handler_in_loop:
  assumes "ctx_session s = Some pty" and "accept_err s = None" and "open_err s = None"
  shows "DefaultSessionHandler s evs =
     (case loop \<lparr>started = False, sess_Pty = pty\<rparr> evs of
        (acts, st, Return) \<Rightarrow> ([NewChanAccept, AgentOpenChannel] @ acts @ teardown, Some st, Return)
      | (acts, st, Continue) \<Rightarrow> ([NewChanAccept, AgentOpenChannel] @ acts, Some st, Continue))"
  using assms
  by (simp add: DefaultSessionHandler_def Let_def teardown_def split: prod.splits flow.splits)

text \<open>
  A running handler that receives an event whose iteration returns runs the deferred
  calls and returns; the events after it are not received.
\<close>

lemma handler_exit:
  assumes run: "snd (snd (DefaultSessionHandler s evs)) = Continue"
    and st: "fst (snd (DefaultSessionHandler s evs)) = Some st"
    and sel: "select st ev oc = (a, st', Return)"
  shows "DefaultSessionHandler s (evs @ (ev, oc) # rest) =
           (fst (DefaultSessionHandler s evs) @ a @ teardown, Some st', Return)"
proof -
  from run obtain pty where h: "ctx_session s = Some pty" "accept_err s = None" "open_err s = None"
    and l: "snd (snd (loop \<lparr>started = False, sess_Pty = pty\<rparr> evs)) = Continue"
    and t: "fst (DefaultSessionHandler s evs) =
              [NewChanAccept, AgentOpenChannel] @ fst (loop \<lparr>started = False, sess_Pty = pty\<rparr> evs)"
    and u: "fst (snd (DefaultSessionHandler s evs)) =
              Some (fst (snd (loop \<lparr>started = False, sess_Pty = pty\<rparr> evs)))"
    by (rule handler_running)
  obtain b where b: "loop \<lparr>started = False, sess_Pty = pty\<rparr> evs = (b, st, Continue)"
    using l u st by (cases "loop \<lparr>started = False, sess_Pty = pty\<rparr> evs") simp
  have "loop \<lparr>started = False, sess_Pty = pty\<rparr> (evs @ (ev, oc) # rest) = (b @ a, st', Return)"
    using b sel by (simp add: loop_append)
  with h t b show ?thesis by (simp add: handler_in_loop)
qed

text \<open>A running handler that receives an event whose iteration continues is still running.\<close>

lemma handler_step:
  assumes run: "snd (snd (DefaultSessionHandler s evs)) = Continue"
    and st: "fst (snd (DefaultSessionHandler s evs)) = Some st"
    and sel: "select st ev oc = (a, st', Continue)"
  shows "DefaultSessionHandler s (evs @ [(ev, oc)]) =
           (fst (DefaultSessionHandler s evs) @ a, Some st', Continue)"
proof -
  from run obtain pty where h: "ctx_session s = Some pty" "accept_err s = None" "open_err s = None"
    and l: "snd (snd (loop \<lparr>started = False, sess_Pty = pty\<rparr> evs)) = Continue"
    and t: "fst (DefaultSessionHandler s evs) =
              [NewChanAccept, AgentOpenChannel] @ fst (loop \<lparr>started = False, sess_Pty = pty\<rparr> evs)"
    and u: "fst (snd (DefaultSessionHandler s evs)) =
              Some (fst (snd (loop \<lparr>started = False, sess_Pty = pty\<rparr> evs)))"
    by (rule handler_running)
  obtain b where b: "loop \<lparr>started = False, sess_Pty = pty\<rparr> evs = (b, st, Continue)"
    using l u st by (cases "loop \<lparr>started = False, sess_Pty = pty\<rparr> evs") simp
  have "loop \<lparr>started = False, sess_Pty = pty\<rparr> (evs @ [(ev, oc)]) = (b @ a, st', Continue)"
    using b sel by (simp add: loop_append)
  with h t b show ?thesis by (simp add: handler_in_loop)
qed

text \<open>The trace of the handler has the pipes and positive replies of its loop, and no others.\<close>

lemma handler_filter:
  assumes "\<not> P (Reject ''failed to recover the session created'')"
    and "\<not> P (Reject ''failed to accept the channel opening'')"
    and "\<not> P (Reject ''failed to open the 'session' channel on agent'')"
    and "\<not> P NewChanAccept" and "\<not> P AgentOpenChannel" and "\<not> P AgentClose"
    and "\<not> P ClientClose" and "\<not> P SessFinish" and "\<not> P ConnClose"
  shows "length (filter P (fst (DefaultSessionHandler s evs)))
           \<le> (case ctx_session s of
                 None \<Rightarrow> 0
               | Some pty \<Rightarrow> length (filter P (fst (loop \<lparr>started = False, sess_Pty = pty\<rparr> evs))))"
  using assms
  by (auto simp: DefaultSessionHandler_def Let_def
           split: option.splits if_splits prod.splits flow.splits)

subsection \<open>One program per channel\<close>

text \<open>
  C1, counterexample. A \<^verbatim>\<open>shell\<close> request is accepted and marks the channel as
  started; the \<^verbatim>\<open>exec\<close> request that follows cannot be forwarded to the agent
  (\<^verbatim>\<open>SendRequest\<close> returns an error), so the loop takes its \<^verbatim>\<open>continue\<close>
  and the request receives no reply at all, neither positive nor negative.
\<close>

theorem dropped_program_request_unanswered:
  "DefaultSessionHandler ex_setup
     [(ClientReqs (Some (ex_request ''shell'' True)), ex_ok 80 24),
      (ClientReqs (Some (ex_request ''exec'' True)), ex_send_fails)]
   = ([NewChanAccept, AgentOpenChannel,
       AgentSendRequest ''shell'' True [],
       ClientReply (ex_request ''shell'' True) True (Some []), Announce, StartPipe ''shell'',
       AgentSendRequest ''exec'' True []],
      Some \<lparr>started = True, sess_Pty = ex_pty\<rparr>, Continue)"
  by (simp add: DefaultSessionHandler_def clientReq_def Let_def examples request_types)

text \<open>
  C1, as amended. Whatever events arrive, the trace of the handler holds at most one
  pipe start and at most one positive reply to a \<^verbatim>\<open>shell\<close>, \<^verbatim>\<open>exec\<close> or
  \<^verbatim>\<open>subsystem\<close> request. Once a program has been marked started, the loop starts no
  pipe and sends no positive reply to such a request; a program request that arrives
  then and is forwarded to the agent without error is answered \<^verbatim>\<open>Reply(false, nil)\<close>,
  and one whose forwarding fails is dropped without a reply.
\<close>

theorem one_program_per_channel:
  "length (filter is_pipe (fst (DefaultSessionHandler s evs))) \<le> 1
   \<and> length (filter positive_program_reply (fst (DefaultSessionHandler s evs))) \<le> 1
   \<and> (started st \<longrightarrow>
         filter is_pipe (fst (loop st evs)) = []
         \<and> filter positive_program_reply (fst (loop st evs)) = [])
   \<and> (started st \<and> program_request req \<longrightarrow>
         clientReq st req oc =
           (if snd (send_res oc) = None then
              ([AgentSendRequest (Type req) (WantReply req) (Payload req),
                ClientReply req False None],
               st, if reply_err oc = None then Continue else Return)
            else ([AgentSendRequest (Type req) (WantReply req) (Payload req)], st, Continue)))"
proof -
  have pipes: "length (filter is_pipe (fst (DefaultSessionHandler s evs))) \<le> 1"
  proof (cases "ctx_session s")
    case None
    with handler_filter [of is_pipe s evs] show ?thesis by simp
  next
    case (Some pty)
    with handler_filter [of is_pipe s evs] loop_at_most_one [of "\<lparr>started = False, sess_Pty = pty\<rparr>" evs]
    show ?thesis by simp
  qed
  have replies: "length (filter positive_program_reply (fst (DefaultSessionHandler s evs))) \<le> 1"
  proof (cases "ctx_session s")
    case None
    with handler_filter [of positive_program_reply s evs] show ?thesis by simp
  next
    case (Some pty)
    with handler_filter [of positive_program_reply s evs]
      loop_at_most_one [of "\<lparr>started = False, sess_Pty = pty\<rparr>" evs]
    show ?thesis by simp
  qed
  have step: "clientReq st req oc =
           (if snd (send_res oc) = None then
              ([AgentSendRequest (Type req) (WantReply req) (Payload req),
                ClientReply req False None],
               st, if reply_err oc = None then Continue else Return)
            else ([AgentSendRequest (Type req) (WantReply req) (Payload req)], st, Continue))"
    if "started st" and "program_request req"
    using that by (auto simp: clientReq_def Let_def program_request_def)
  from pipes replies step loop_started_quiet [of st evs] show ?thesis by blast
qed

theorem one_program_per_channel_witness:
  "started \<lparr>started = True, sess_Pty = ex_pty\<rparr>
   \<and> program_request (ex_request ''exec'' True)
   \<and> clientReq \<lparr>started = True, sess_Pty = ex_pty\<rparr> (ex_request ''exec'' True) (ex_ok 80 24)
       = ([AgentSendRequest ''exec'' True [], ClientReply (ex_request ''exec'' True) False None],
          \<lparr>started = True, sess_Pty = ex_pty\<rparr>, Continue)
   \<and> filter is_pipe (fst (loop \<lparr>started = True, sess_Pty = ex_pty\<rparr>
         [(ClientReqs (Some (ex_request ''exec'' True)), ex_ok 80 24)])) = []"
  using one_program_per_channel
    [where st = "\<lparr>started = True, sess_Pty = ex_pty\<rparr>" and req = "ex_request ''exec'' True"
       and oc = "ex_ok 80 24"
       and evs = "[(ClientReqs (Some (ex_request ''exec'' True)), ex_ok 80 24)]"]
  by (simp add: program_request_def ex_request_def ex_ok_def request_types)

text \<open>
  C10. A \<^verbatim>\<open>shell\<close>, \<^verbatim>\<open>exec\<close> or \<^verbatim>\<open>subsystem\<close> request with the want-reply flag
  unset, received while no program has started, is forwarded to the agent and nothing
  else happens: no reply, no pipe, \<^verbatim>\<open>started\<close> still unset, and the loop goes on.
\<close>

theorem program_request_without_reply_flag:
  assumes "program_request req" and "\<not> WantReply req" and "\<not> started st"
  shows "clientReq st req oc =
           ([AgentSendRequest (Type req) False (Payload req)], st, Continue)"
  using assms by (auto simp: clientReq_def Let_def program_request_def)

theorem program_request_without_reply_flag_witness:
  "program_request (ex_request ''shell'' False)
   \<and> \<not> WantReply (ex_request ''shell'' False)
   \<and> \<not> started \<lparr>started = False, sess_Pty = ex_pty\<rparr>
   \<and> clientReq \<lparr>started = False, sess_Pty = ex_pty\<rparr> (ex_request ''shell'' False) (ex_ok 80 24)
       = ([AgentSendRequest ''shell'' False []], \<lparr>started = False, sess_Pty = ex_pty\<rparr>, Continue)"
  using program_request_without_reply_flag
    [of "ex_request ''shell'' False" "\<lparr>started = False, sess_Pty = ex_pty\<rparr>" "ex_ok 80 24"]
  by (simp add: program_request_def ex_request_def request_types)

subsection \<open>Keep-alive\<close>

text \<open>
  C5. On a global request of type \<^verbatim>\<open>keepalive\<close> from the agent the handler calls
  \<^verbatim>\<open>sess.KeepAlive()\<close>. When the call succeeds it replies \<^verbatim>\<open>Reply(false, nil)\<close> to
  the agent and the loop goes on, whether or not the reply fails. When the call
  fails, the loop exits without a reply, both channels are closed, the session is
  finished and the connection is closed.
\<close>

theorem keepalive_global_request:
  assumes "Type req = KeepAliveRequestType"
  shows "select st (AgentGlobalReqs (Some req)) oc =
           (if keepalive_err oc = None then ([KeepAlive, GlobalReply req False None], st, Continue)
            else ([KeepAlive], st, Return))
         \<and> (snd (snd (DefaultSessionHandler s evs)) = Continue \<and> keepalive_err oc = None \<longrightarrow>
              DefaultSessionHandler s (evs @ [(AgentGlobalReqs (Some req), oc)]) =
                (fst (DefaultSessionHandler s evs) @ [KeepAlive, GlobalReply req False None],
                 fst (snd (DefaultSessionHandler s evs)), Continue))
         \<and> (snd (snd (DefaultSessionHandler s evs)) = Continue \<and> keepalive_err oc \<noteq> None \<longrightarrow>
              DefaultSessionHandler s (evs @ (AgentGlobalReqs (Some req), oc) # rest) =
                (fst (DefaultSessionHandler s evs)
                   @ [KeepAlive, AgentClose, ClientClose, SessFinish, ConnClose],
                 fst (snd (DefaultSessionHandler s evs)), Return))"
proof (intro conjI impI)
  show sel: "select st (AgentGlobalReqs (Some req)) oc =
           (if keepalive_err oc = None then ([KeepAlive, GlobalReply req False None], st, Continue)
            else ([KeepAlive], st, Return))" for st
    using assms by (simp add: agentGlobalReq_def)
  {
    assume a: "snd (snd (DefaultSessionHandler s evs)) = Continue \<and> keepalive_err oc = None"
    then obtain st0 where st0: "fst (snd (DefaultSessionHandler s evs)) = Some st0"
      by (auto elim: handler_running)
    from a sel [of st0]
    have "select st0 (AgentGlobalReqs (Some req)) oc =
            ([KeepAlive, GlobalReply req False None], st0, Continue)" by simp
    from handler_step [OF _ st0 this] a st0
    show "DefaultSessionHandler s (evs @ [(AgentGlobalReqs (Some req), oc)]) =
                (fst (DefaultSessionHandler s evs) @ [KeepAlive, GlobalReply req False None],
                 fst (snd (DefaultSessionHandler s evs)), Continue)" by simp
  }
  {
    assume a: "snd (snd (DefaultSessionHandler s evs)) = Continue \<and> keepalive_err oc \<noteq> None"
    then obtain st0 where st0: "fst (snd (DefaultSessionHandler s evs)) = Some st0"
      by (auto elim: handler_running)
    from a sel [of st0]
    have "select st0 (AgentGlobalReqs (Some req)) oc = ([KeepAlive], st0, Return)" by auto
    from handler_exit [OF _ st0 this] a st0
    show "DefaultSessionHandler s (evs @ (AgentGlobalReqs (Some req), oc) # rest) =
                (fst (DefaultSessionHandler s evs)
                   @ [KeepAlive, AgentClose, ClientClose, SessFinish, ConnClose],
                 fst (snd (DefaultSessionHandler s evs)), Return)"
      by (simp add: teardown_def)
  }
qed

theorem keepalive_global_request_witness:
  "Type (ex_request ''keepalive'' False) = KeepAliveRequestType
   \<and> snd (snd (DefaultSessionHandler ex_setup [])) = Continue
   \<and> keepalive_err ex_keepalive_fails \<noteq> None
   \<and> keepalive_err (ex_ok 80 24) = None
   \<and> DefaultSessionHandler ex_setup
         [(AgentGlobalReqs (Some (ex_request ''keepalive'' False)), ex_ok 80 24)]
       = ([NewChanAccept, AgentOpenChannel, KeepAlive,
           GlobalReply (ex_request ''keepalive'' False) False None],
          Some \<lparr>started = False, sess_Pty = ex_pty\<rparr>, Continue)
   \<and> DefaultSessionHandler ex_setup
         [(AgentGlobalReqs (Some (ex_request ''keepalive'' False)), ex_keepalive_fails)]
       = ([NewChanAccept, AgentOpenChannel, KeepAlive,
           AgentClose, ClientClose, SessFinish, ConnClose],
          Some \<lparr>started = False, sess_Pty = ex_pty\<rparr>, Return)"
proof -
  have t: "Type (ex_request ''keepalive'' False) = KeepAliveRequestType"
    by (simp add: ex_request_def request_types)
  have r: "DefaultSessionHandler ex_setup [] =
             ([NewChanAccept, AgentOpenChannel], Some \<lparr>started = False, sess_Pty = ex_pty\<rparr>, Continue)"
    by (simp add: DefaultSessionHandler_def ex_setup_def)
  have k: "keepalive_err ex_keepalive_fails \<noteq> None" "keepalive_err (ex_ok 80 24) = None"
    by (simp_all add: ex_keepalive_fails_def ex_ok_def)
  from keepalive_global_request [OF t, of _ "ex_ok 80 24" ex_setup "[]"] r k
  have a: "DefaultSessionHandler ex_setup
         [(AgentGlobalReqs (Some (ex_request ''keepalive'' False)), ex_ok 80 24)]
       = ([NewChanAccept, AgentOpenChannel, KeepAlive,
           GlobalReply (ex_request ''keepalive'' False) False None],
          Some \<lparr>started = False, sess_Pty = ex_pty\<rparr>, Continue)" by simp
  from keepalive_global_request [OF t, of _ ex_keepalive_fails ex_setup "[]" "[]"] r k
  have b: "DefaultSessionHandler ex_setup
         [(AgentGlobalReqs (Some (ex_request ''keepalive'' False)), ex_keepalive_fails)]
       = ([NewChanAccept, AgentOpenChannel, KeepAlive,
           AgentClose, ClientClose, SessFinish, ConnClose],
          Some \<lparr>started = False, sess_Pty = ex_pty\<rparr>, Return)" by simp
  from t r k a b show ?thesis by simp
qed

subsection \<open>Leaving the loop\<close>

lemma select_no_finish: "SessFinish \<notin> set (fst (select st ev oc))"
  by (cases "(st, ev, oc)" rule: select.cases)
     (simp_all add: agentGlobalReq_def clientReq_def agentReq_def Let_def)

lemma loop_no_finish: "SessFinish \<notin> set (fst (loop st evs))"
proof (induction evs arbitrary: st)
  case Nil
  show ?case by simp
next
  case (Cons p evs)
  obtain ev oc where p: "p = (ev, oc)" by (cases p)
  obtain a st' f where s: "select st ev oc = (a, st', f)" by (cases "select st ev oc")
  from select_no_finish [of st ev oc] s have a: "SessFinish \<notin> set a" by simp
  show ?case
  proof (cases f)
    case Return
    with p s a show ?thesis by simp
  next
    case Continue
    with p s a Cons.IH [of st'] show ?thesis by (auto split: prod.splits)
  qed
qed

lemma handler_finish_count:
  assumes "ctx_session s = Some pty"
  shows "count_list (fst (DefaultSessionHandler s evs)) SessFinish =
           (if snd (snd (DefaultSessionHandler s evs)) = Return then 1 else 0)"
proof (cases "accept_err s = None \<and> open_err s = None")
  case False
  with assms show ?thesis by (auto simp: DefaultSessionHandler_def Let_def)
next
  case True
  obtain a st f where l: "loop \<lparr>started = False, sess_Pty = pty\<rparr> evs = (a, st, f)"
    by (cases "loop \<lparr>started = False, sess_Pty = pty\<rparr> evs")
  from loop_no_finish [of "\<lparr>started = False, sess_Pty = pty\<rparr>" evs] l
  have "count_list a SessFinish = 0" by simp
  with assms True l show ?thesis
    by (cases f) (simp_all add: handler_in_loop teardown_def)
qed

text \<open>
  C6. With a session in the context, the handler calls \<^verbatim>\<open>sess.Finish()\<close> exactly
  once on every path on which it returns, and not before it returns. A running
  handler returns at the first iteration of the loop that returns, which is the case
  when the context is done and when the client's, the agent's or the agent's global
  request channel is closed; the trace then holds one call of \<^verbatim>\<open>Finish\<close>.
\<close>

theorem finish_exactly_once:
  assumes "ctx_session s = Some pty"
  shows "count_list (fst (DefaultSessionHandler s evs)) SessFinish =
           (if snd (snd (DefaultSessionHandler s evs)) = Return then 1 else 0)
         \<and> (snd (snd (DefaultSessionHandler s evs)) = Continue
              \<and> fst (snd (DefaultSessionHandler s evs)) = Some st
              \<and> snd (snd (select st ev oc)) = Return \<longrightarrow>
              snd (snd (DefaultSessionHandler s (evs @ (ev, oc) # rest))) = Return
              \<and> count_list (fst (DefaultSessionHandler s (evs @ (ev, oc) # rest))) SessFinish = 1)
         \<and> (snd (snd (DefaultSessionHandler s evs)) = Continue
              \<and> (ev = CtxDone \<or> ev = ClientReqs None \<or> ev = AgentReqs None
                   \<or> ev = AgentGlobalReqs None) \<longrightarrow>
              snd (snd (DefaultSessionHandler s (evs @ (ev, oc) # rest))) = Return
              \<and> count_list (fst (DefaultSessionHandler s (evs @ (ev, oc) # rest))) SessFinish = 1)"
proof -
  have exit: "snd (snd (DefaultSessionHandler s (evs @ (ev, oc) # rest))) = Return
              \<and> count_list (fst (DefaultSessionHandler s (evs @ (ev, oc) # rest))) SessFinish = 1"
    if run: "snd (snd (DefaultSessionHandler s evs)) = Continue"
      and st: "fst (snd (DefaultSessionHandler s evs)) = Some st"
      and ret: "snd (snd (select st ev oc)) = Return" for st ev
  proof -
    obtain a st' where "select st ev oc = (a, st', Return)"
      using ret by (cases "select st ev oc") simp
    from handler_exit [OF run st this, of rest]
    have r: "snd (snd (DefaultSessionHandler s (evs @ (ev, oc) # rest))) = Return" by simp
    with handler_finish_count [OF assms, of "evs @ (ev, oc) # rest"] show ?thesis by simp
  qed
  have closed: "snd (snd (DefaultSessionHandler s (evs @ (ev, oc) # rest))) = Return
              \<and> count_list (fst (DefaultSessionHandler s (evs @ (ev, oc) # rest))) SessFinish = 1"
    if run: "snd (snd (DefaultSessionHandler s evs)) = Continue"
      and ev: "ev = CtxDone \<or> ev = ClientReqs None \<or> ev = AgentReqs None \<or> ev = AgentGlobalReqs None"
  proof -
    from run obtain st0 where st0: "fst (snd (DefaultSessionHandler s evs)) = Some st0"
      by (auto elim: handler_running)
    from ev have "snd (snd (select st0 ev oc)) = Return" by auto
    from exit [OF run st0 this] show ?thesis .
  qed
  from handler_finish_count [OF assms, of evs] exit closed show ?thesis by blast
qed

theorem finish_exactly_once_witness:
  "ctx_session ex_setup = Some ex_pty
   \<and> snd (snd (DefaultSessionHandler ex_setup [])) = Continue
   \<and> count_list (fst (DefaultSessionHandler ex_setup [])) SessFinish = 0
   \<and> snd (snd (DefaultSessionHandler ex_setup [(ClientReqs None, ex_ok 80 24)])) = Return
   \<and> count_list (fst (DefaultSessionHandler ex_setup [(ClientReqs None, ex_ok 80 24)])) SessFinish = 1"
proof -
  have c: "ctx_session ex_setup = Some ex_pty" by (simp add: ex_setup_def)
  have r: "snd (snd (DefaultSessionHandler ex_setup [])) = Continue"
    by (simp add: DefaultSessionHandler_def ex_setup_def)
  from finish_exactly_once [OF c, of "[]" _ "ClientReqs None" "ex_ok 80 24" "[]"] c r
  show ?thesis by simp
qed

text \<open>
  C9, counterexample. On cancellation the handler closes the agent channel, closes the
  client channel, finishes the session and only then closes the connection: the order
  of the last two steps is the reverse of the one claimed.
\<close>

theorem cancellation_finishes_before_close:
  "fst (DefaultSessionHandler ex_setup [(CtxDone, ex_ok 80 24)])
     = [NewChanAccept, AgentOpenChannel, AgentClose, ClientClose, SessFinish, ConnClose]
   \<and> fst (DefaultSessionHandler ex_setup [(CtxDone, ex_ok 80 24)])
     \<noteq> [NewChanAccept, AgentOpenChannel, AgentClose, ClientClose, ConnClose, SessFinish]"
  by (simp add: DefaultSessionHandler_def ex_setup_def)

text \<open>
  C9, as amended. When the context is done while the handler is in its loop, the
  handler makes four more calls and returns: it closes the agent channel, then closes
  the client channel, then finishes the session, then closes the underlying
  connection. (The calls are deferred; they run in the reverse of the order in which
  they were registered.) Events after the cancellation are not received.
\<close>

theorem cancellation_teardown_order:
  assumes "snd (snd (DefaultSessionHandler s evs)) = Continue"
  shows "DefaultSessionHandler s (evs @ (CtxDone, oc) # rest) =
           (fst (DefaultSessionHandler s evs) @ [AgentClose, ClientClose, SessFinish, ConnClose],
            fst (snd (DefaultSessionHandler s evs)), Return)"
proof -
  from assms obtain st0 where st0: "fst (snd (DefaultSessionHandler s evs)) = Some st0"
    by (auto elim: handler_running)
  have "select st0 CtxDone oc = ([], st0, Return)" by simp
  from handler_exit [OF assms st0 this] st0 show ?thesis by (simp add: teardown_def)
qed

theorem cancellation_teardown_order_witness:
  "snd (snd (DefaultSessionHandler ex_setup
       [(ClientReqs (Some (ex_request ''shell'' True)), ex_ok 80 24)])) = Continue
   \<and> fst (DefaultSessionHandler ex_setup
       [(ClientReqs (Some (ex_request ''shell'' True)), ex_ok 80 24), (CtxDone, ex_ok 80 24)])
     = [NewChanAccept, AgentOpenChannel, AgentSendRequest ''shell'' True [],
        ClientReply (ex_request ''shell'' True) True (Some []), Announce, StartPipe ''shell'',
        AgentClose, ClientClose, SessFinish, ConnClose]"
proof -
  have r: "DefaultSessionHandler ex_setup
       [(ClientReqs (Some (ex_request ''shell'' True)), ex_ok 80 24)]
     = ([NewChanAccept, AgentOpenChannel, AgentSendRequest ''shell'' True [],
         ClientReply (ex_request ''shell'' True) True (Some []), Announce, StartPipe ''shell''],
        Some \<lparr>started = True, sess_Pty = ex_pty\<rparr>, Continue)"
    by (simp add: DefaultSessionHandler_def clientReq_def Let_def examples request_types)
  then have c: "snd (snd (DefaultSessionHandler ex_setup
       [(ClientReqs (Some (ex_request ''shell'' True)), ex_ok 80 24)])) = Continue" by simp
  from cancellation_teardown_order [OF c, of "ex_ok 80 24" "[]"] r c show ?thesis by simp
qed

subsection \<open>Reply failures\<close>

lemma clientReq_returns:
  "snd (snd (clientReq st req oc)) = Return \<longleftrightarrow>
     Type req \<noteq> WindowChangeRequestType
     \<and> list_ex is_client_reply (fst (clientReq st req oc)) \<and> reply_err oc \<noteq> None"
  by (simp add: clientReq_def Let_def request_types)

lemma agentReq_returns:
  "snd (snd (agentReq st req oc)) = Return \<longleftrightarrow>
     list_ex is_agent_reply (fst (agentReq st req oc)) \<and> reply_err oc \<noteq> None"
  by (simp add: agentReq_def Let_def)

lemma agentGlobalReq_returns:
  "snd (snd (agentGlobalReq st req oc)) = Return \<longleftrightarrow>
     Type req = KeepAliveRequestType \<and> keepalive_err oc \<noteq> None"
  by (simp add: agentGlobalReq_def)

text \<open>
  C8, counterexample. The reply to a \<^verbatim>\<open>window-change\<close> request fails
  (\<^verbatim>\<open>req.Reply\<close> returns an error) and the loop goes on: the error of that call is
  discarded.
\<close>

theorem window_change_reply_failure_ignored:
  "reply_err ex_reply_fails = Some ''EOF''
   \<and> DefaultSessionHandler ex_setup
       [(ClientReqs (Some (ex_request ''window-change'' True)), ex_reply_fails)]
     = ([NewChanAccept, AgentOpenChannel, AgentSendRequest ''window-change'' True [],
         ClientReply (ex_request ''window-change'' True) True None],
        Some \<lparr>started = False, sess_Pty = ex_pty\<lparr>Columns := 100, Rows := 30\<rparr>\<rparr>, Continue)"
  by (simp add: DefaultSessionHandler_def clientReq_def Let_def examples request_types)

text \<open>
  C8, as amended. An iteration of the multiplex loop returns exactly in these cases:
  the context is done; one of the three request channels is closed; the keep-alive
  call of a \<^verbatim>\<open>keepalive\<close> global request fails; a \<^verbatim>\<open>Reply\<close> to a client request of
  a type other than \<^verbatim>\<open>window-change\<close> fails; a \<^verbatim>\<open>Reply\<close> to an agent channel
  request fails. A failed \<^verbatim>\<open>Reply\<close> to a \<^verbatim>\<open>window-change\<close> request or to an agent
  global request does not end the loop. A running handler whose next iteration
  returns closes both channels, finishes the session, closes the connection and
  returns; one whose next iteration does not return goes on.
\<close>

theorem loop_exit_conditions:
  "(snd (snd (select st ev oc)) = Return \<longleftrightarrow>
     ev = CtxDone \<or> ev = AgentGlobalReqs None \<or> ev = ClientReqs None \<or> ev = AgentReqs None
     \<or> (\<exists>req. ev = AgentGlobalReqs (Some req)
            \<and> Type req = KeepAliveRequestType \<and> keepalive_err oc \<noteq> None)
     \<or> (\<exists>req. ev = ClientReqs (Some req)
            \<and> Type req \<noteq> WindowChangeRequestType
            \<and> list_ex is_client_reply (fst (select st ev oc)) \<and> reply_err oc \<noteq> None)
     \<or> (\<exists>req. ev = AgentReqs (Some req)
            \<and> list_ex is_agent_reply (fst (select st ev oc)) \<and> reply_err oc \<noteq> None))
   \<and> (snd (snd (DefaultSessionHandler s evs)) = Continue
        \<and> fst (snd (DefaultSessionHandler s evs)) = Some st \<longrightarrow>
        snd (snd (DefaultSessionHandler s (evs @ [(ev, oc)]))) = snd (snd (select st ev oc))
        \<and> fst (DefaultSessionHandler s (evs @ [(ev, oc)])) =
            fst (DefaultSessionHandler s evs) @ fst (select st ev oc)
              @ (if snd (snd (select st ev oc)) = Return
                 then [AgentClose, ClientClose, SessFinish, ConnClose] else []))"
proof
  show "snd (snd (select st ev oc)) = Return \<longleftrightarrow>
     ev = CtxDone \<or> ev = AgentGlobalReqs None \<or> ev = ClientReqs None \<or> ev = AgentReqs None
     \<or> (\<exists>req. ev = AgentGlobalReqs (Some req)
            \<and> Type req = KeepAliveRequestType \<and> keepalive_err oc \<noteq> None)
     \<or> (\<exists>req. ev = ClientReqs (Some req)
            \<and> Type req \<noteq> WindowChangeRequestType
            \<and> list_ex is_client_reply (fst (select st ev oc)) \<and> reply_err oc \<noteq> None)
     \<or> (\<exists>req. ev = AgentReqs (Some req)
            \<and> list_ex is_agent_reply (fst (select st ev oc)) \<and> reply_err oc \<noteq> None)"
  proof (cases "(st, ev, oc)" rule: select.cases)
    case (3 st' req oc')
    then show ?thesis by (simp add: agentGlobalReq_returns)
  next
    case (5 st' req oc')
    then show ?thesis by (simp add: clientReq_returns)
  next
    case (7 st' req oc')
    then show ?thesis by (simp add: agentReq_returns)
  qed simp_all
  show "snd (snd (DefaultSessionHandler s evs)) = Continue
        \<and> fst (snd (DefaultSessionHandler s evs)) = Some st \<longrightarrow>
        snd (snd (DefaultSessionHandler s (evs @ [(ev, oc)]))) = snd (snd (select st ev oc))
        \<and> fst (DefaultSessionHandler s (evs @ [(ev, oc)])) =
            fst (DefaultSessionHandler s evs) @ fst (select st ev oc)
              @ (if snd (snd (select st ev oc)) = Return
                 then [AgentClose, ClientClose, SessFinish, ConnClose] else [])"
  proof
    assume a: "snd (snd (DefaultSessionHandler s evs)) = Continue
        \<and> fst (snd (DefaultSessionHandler s evs)) = Some st"
    obtain b st' f where sel: "select st ev oc = (b, st', f)" by (cases "select st ev oc")
    show "snd (snd (DefaultSessionHandler s (evs @ [(ev, oc)]))) = snd (snd (select st ev oc))
        \<and> fst (DefaultSessionHandler s (evs @ [(ev, oc)])) =
            fst (DefaultSessionHandler s evs) @ fst (select st ev oc)
              @ (if snd (snd (select st ev oc)) = Return
                 then [AgentClose, ClientClose, SessFinish, ConnClose] else [])"
    proof (cases f)
      case Return
      with a sel handler_exit [of s evs st ev oc b st' "[]"] show ?thesis
        by (simp add: teardown_def)
    next
      case Continue
      with a sel handler_step [of s evs st ev oc b st'] show ?thesis by simp
    qed
  qed
qed

theorem loop_exit_conditions_witness:
  "snd (snd (select \<lparr>started = False, sess_Pty = ex_pty\<rparr>
       (ClientReqs (Some (ex_request ''pty-req'' True))) ex_reply_fails)) = Return
   \<and> snd (snd (select \<lparr>started = False, sess_Pty = ex_pty\<rparr>
       (ClientReqs (Some (ex_request ''window-change'' True))) ex_reply_fails)) \<noteq> Return
   \<and> snd (snd (select \<lparr>started = False, sess_Pty = ex_pty\<rparr>
       (AgentGlobalReqs (Some (ex_request ''keepalive'' True))) ex_reply_fails)) \<noteq> Return"
proof -
  have a: "list_ex is_client_reply (fst (select \<lparr>started = False, sess_Pty = ex_pty\<rparr>
       (ClientReqs (Some (ex_request ''pty-req'' True))) ex_reply_fails))"
    by (simp add: clientReq_def Let_def examples request_types)
  have b: "reply_err ex_reply_fails \<noteq> None" "keepalive_err ex_reply_fails = None"
    by (simp_all add: examples)
  have c: "Type (ex_request ''pty-req'' True) \<noteq> WindowChangeRequestType"
    "Type (ex_request ''window-change'' True) = WindowChangeRequestType"
    by (simp_all add: examples request_types)
  from loop_exit_conditions [of "\<lparr>started = False, sess_Pty = ex_pty\<rparr>"
      "ClientReqs (Some (ex_request ''pty-req'' True))" ex_reply_fails] a b c
  have 1: "snd (snd (select \<lparr>started = False, sess_Pty = ex_pty\<rparr>
       (ClientReqs (Some (ex_request ''pty-req'' True))) ex_reply_fails)) = Return" by blast
  from loop_exit_conditions [of "\<lparr>started = False, sess_Pty = ex_pty\<rparr>"
      "ClientReqs (Some (ex_request ''window-change'' True))" ex_reply_fails] c
  have 2: "snd (snd (select \<lparr>started = False, sess_Pty = ex_pty\<rparr>
       (ClientReqs (Some (ex_request ''window-change'' True))) ex_reply_fails)) \<noteq> Return" by simp
  from loop_exit_conditions [of "\<lparr>started = False, sess_Pty = ex_pty\<rparr>"
      "AgentGlobalReqs (Some (ex_request ''keepalive'' True))" ex_reply_fails] b
  have 3: "snd (snd (select \<lparr>started = False, sess_Pty = ex_pty\<rparr>
       (AgentGlobalReqs (Some (ex_request ''keepalive'' True))) ex_reply_fails)) \<noteq> Return" by simp
  from 1 2 3 show ?thesis by simp
qed

subsection \<open>Terminal dimensions\<close>

text \<open>
  C2, counterexample. The session holds 80 columns and 24 rows. A \<^verbatim>\<open>window-change\<close>
  with 100 columns and 0 rows leaves it with 100 columns and 0 rows: the zero is
  stored, the 24 rows are not kept. Likewise a second \<^verbatim>\<open>pty-req\<close> whose dimension
  fields are all zero leaves it with 0 columns and 0 rows.
\<close>

theorem window_change_stores_zero:
  "fst (snd (DefaultSessionHandler ex_setup
       [(ClientReqs (Some (ex_request ''pty-req'' True)), ex_ok 80 24),
        (ClientReqs (Some (ex_request ''window-change'' True)), ex_ok 100 0)]))
     = Some \<lparr>started = False,
             sess_Pty = \<lparr>Term = ''xterm'', Columns = 100, Rows = 0, Width = 0, Height = 0,
                         Modelist = []\<rparr>\<rparr>
   \<and> fst (snd (DefaultSessionHandler ex_setup
       [(ClientReqs (Some (ex_request ''pty-req'' True)), ex_ok 80 24),
        (ClientReqs (Some (ex_request ''pty-req'' True)), ex_ok 0 0)]))
     = Some \<lparr>started = False,
             sess_Pty = \<lparr>Term = ''xterm'', Columns = 0, Rows = 0, Width = 0, Height = 0,
                         Modelist = []\<rparr>\<rparr>"
  by (simp add: DefaultSessionHandler_def clientReq_def Let_def examples request_types)

text \<open>
  C2, as amended. A \<^verbatim>\<open>window-change\<close> request that is forwarded to the agent without
  error sets the stored columns and the stored rows to the columns and rows decoded
  from its payload, zero or not, and leaves the other fields of the session's
  pseudo-terminal state as they were; one whose forwarding fails changes nothing.
\<close>

theorem window_change_dimensions:
  assumes "Type req = WindowChangeRequestType"
  shows "sess_Pty (fst (snd (clientReq st req oc))) =
           (if snd (send_res oc) = None then
              (sess_Pty st)\<lparr>Columns := dim_Columns (snd (unmarshal_dims oc)),
                            Rows := dim_Rows (snd (unmarshal_dims oc))\<rparr>
            else sess_Pty st)"
  using assms by (simp add: clientReq_def Let_def request_types)

theorem window_change_dimensions_witness:
  "Type (ex_request ''window-change'' False) = WindowChangeRequestType
   \<and> sess_Pty (fst (snd (clientReq \<lparr>started = True, sess_Pty = ex_pty\<rparr>
        (ex_request ''window-change'' False) (ex_ok 100 0))))
     = \<lparr>Term = ''xterm'', Columns = 100, Rows = 0, Width = 0, Height = 0, Modelist = []\<rparr>"
proof -
  have t: "Type (ex_request ''window-change'' False) = WindowChangeRequestType"
    by (simp add: ex_request_def request_types)
  from window_change_dimensions [OF t, of "\<lparr>started = True, sess_Pty = ex_pty\<rparr>" "ex_ok 100 0"] t
  show ?thesis by (simp add: ex_ok_def ex_pty_def)
qed

text \<open>
  C7, the code at a malformed \<^verbatim>\<open>pty-req\<close>. The session holds 80 columns and 24
  rows; the payload of the request does not decode. The handler calls \<^verbatim>\<open>reject\<close>
  and then goes on as if nothing had failed: it overwrites the session's
  pseudo-terminal state with the contents of the destination struct (here its zero
  value), replies to the client with the agent's answer, and stays in the loop.
\<close>

theorem malformed_pty_req_overwrites:
  "fst (unmarshal_pty ex_unmarshal_fails) \<noteq> None
   \<and> DefaultSessionHandler ex_setup
       [(ClientReqs (Some (ex_request ''pty-req'' True)), ex_unmarshal_fails)]
     = ([NewChanAccept, AgentOpenChannel, AgentSendRequest ''pty-req'' True [],
         Reject ''failed to recover the session dimensions'',
         ClientReply (ex_request ''pty-req'' True) True None],
        Some \<lparr>started = False, sess_Pty = zero_Pty\<rparr>, Continue)"
  by (simp add: DefaultSessionHandler_def clientReq_def Let_def examples request_types)

section \<open>Properties of the public-key callback\<close>

text \<open>Building the lookup map calls neither of the two key functions nor \<^verbatim>\<open>DeviceLookup\<close>.\<close>

lemma build_lookup_Inl:
  "build_lookup env tag = Inl cs \<Longrightarrow>
     \<not> list_ex is_key_call cs \<and> GetPublicKey fp t e \<notin> set cs \<and> EvaluateKey fp d u r \<notin> set cs
     \<and> DeviceLookup l errs \<notin> set cs"
  by (auto simp: build_lookup_def split: if_splits sum.splits)

lemma build_lookup_Inr:
  "build_lookup env tag = Inr (cs, lookup) \<Longrightarrow>
     \<not> list_ex is_key_call cs \<and> \<not> list_ex call_failed cs
     \<and> GetPublicKey fp t e \<notin> set cs \<and> EvaluateKey fp d u r \<notin> set cs
     \<and> DeviceLookup l errs \<notin> set cs"
  by (auto simp: build_lookup_def split: if_splits sum.splits)

text \<open>What \<^verbatim>\<open>PublicKey\<close> does once the lookup map is built.\<close>

lemma PublicKey_resolved:
  assumes "ctx_user env = Some sshid" and "NewTarget env sshid = Inr tag"
    and "build_lookup env tag = Inr (cs, lookup)"
  shows "PublicKey env key =
           (if snd (api_DeviceLookup env lookup) \<noteq> []
            then reject_key (cs @ [DeviceLookup lookup (snd (api_DeviceLookup env lookup))])
            else check_key env (FingerprintLegacyMD5 env key) tag (fst (api_DeviceLookup env lookup))
                   (cs @ [DeviceLookup lookup []]))"
  using assms by (simp add: PublicKey_def Let_def)

text \<open>What it does when an earlier stage fails.\<close>

lemma PublicKey_no_user:
  "ctx_user env = None \<Longrightarrow> PublicKey env key = reject_key []"
  by (simp add: PublicKey_def)

lemma PublicKey_no_target:
  "ctx_user env = Some sshid \<Longrightarrow> NewTarget env sshid = Inl e \<Longrightarrow>
     PublicKey env key = reject_key []"
  by (simp add: PublicKey_def)

lemma PublicKey_no_lookup:
  "ctx_user env = Some sshid \<Longrightarrow> NewTarget env sshid = Inr tag \<Longrightarrow>
     build_lookup env tag = Inl cs \<Longrightarrow> PublicKey env key = reject_key cs"
  by (simp add: PublicKey_def)

lemma check_key_non_magic:
  assumes "magic_NewPublicKey env = Inr mk" and "FingerprintLegacyMD5 env mk \<noteq> fp"
  shows "check_key env fp tag dev cs =
           (if api_GetPublicKey env fp (TenantID dev) \<noteq> None then
              reject_key (cs @ [GetPublicKey fp (TenantID dev) (api_GetPublicKey env fp (TenantID dev))])
            else if api_EvaluateKey env fp dev (Username tag) = (True, None) then
              accept_key (cs @ [GetPublicKey fp (TenantID dev) None,
                                EvaluateKey fp dev (Username tag) (True, None)]) fp
            else
              reject_key (cs @ [GetPublicKey fp (TenantID dev) None,
                 EvaluateKey fp dev (Username tag) (api_EvaluateKey env fp dev (Username tag))]))"
  using assms
  by (cases "api_EvaluateKey env fp dev (Username tag)")
     (auto simp: check_key_def Let_def split: option.splits)

lemma check_key_magic:
  assumes "magic_NewPublicKey env = Inr mk" and "FingerprintLegacyMD5 env mk = fp"
  shows "check_key env fp tag dev cs = accept_key cs fp"
  using assms by (simp add: check_key_def)


text \<open>The five ways through the stages that come before the key is looked at.\<close>

lemma PublicKey_cases:
  obtains (no_user) "ctx_user env = None" and "PublicKey env key = reject_key []"
  | (no_target) sshid e where "ctx_user env = Some sshid" and "NewTarget env sshid = Inl e"
      and "PublicKey env key = reject_key []"
  | (no_lookup) sshid tag cs where "ctx_user env = Some sshid" and "NewTarget env sshid = Inr tag"
      and "build_lookup env tag = Inl cs" and "PublicKey env key = reject_key cs"
  | (lookup_failed) sshid tag cs lookup where "ctx_user env = Some sshid"
      and "NewTarget env sshid = Inr tag" and "build_lookup env tag = Inr (cs, lookup)"
      and "snd (api_DeviceLookup env lookup) \<noteq> []"
      and "PublicKey env key =
             reject_key (cs @ [DeviceLookup lookup (snd (api_DeviceLookup env lookup))])"
  | (resolved) sshid tag cs lookup where "ctx_user env = Some sshid"
      and "NewTarget env sshid = Inr tag" and "build_lookup env tag = Inr (cs, lookup)"
      and "snd (api_DeviceLookup env lookup) = []"
      and "PublicKey env key =
             check_key env (FingerprintLegacyMD5 env key) tag (fst (api_DeviceLookup env lookup))
               (cs @ [DeviceLookup lookup []])"
proof (cases "ctx_user env")
  case None
  show ?thesis by (rule no_user) (simp_all add: None PublicKey_no_user)
next
  case (Some sshid)
  show ?thesis
  proof (cases "NewTarget env sshid")
    case (Inl e)
    show ?thesis
      by (rule no_target [of sshid e]) (simp_all add: Some Inl PublicKey_no_target [of env sshid e])
  next
    case (Inr tag)
    show ?thesis
    proof (cases "build_lookup env tag")
      case (Inl cs)
      show ?thesis
        by (rule no_lookup [of sshid tag cs])
           (simp_all add: Some Inr Inl PublicKey_no_lookup [of env sshid tag cs])
    next
      case r: (Inr p)
      obtain cs lookup where p: "p = (cs, lookup)" by (cases p)
      show ?thesis
      proof (cases "snd (api_DeviceLookup env lookup) = []")
        case True
        show ?thesis
          by (rule resolved [of sshid tag cs lookup])
             (simp_all add: Some Inr r p True PublicKey_resolved [of env sshid tag cs lookup])
      next
        case False
        show ?thesis
          by (rule lookup_failed [of sshid tag cs lookup])
             (simp_all add: Some Inr r p False PublicKey_resolved [of env sshid tag cs lookup])
      qed
    qed
  qed
qed

text \<open>
  C3. For a presented key whose fingerprint differs from that of the magic key,
  \<^verbatim>\<open>PublicKey\<close> returns true exactly when it has called \<^verbatim>\<open>GetPublicKey\<close> for the
  key's fingerprint and got no error, and has called \<^verbatim>\<open>EvaluateKey\<close> for it and got
  true and no error. In terms of the stages: it returns true exactly when the login
  is in the context, the target parses, the lookup map is built (the SSHID splits or
  the device is fetched), \<^verbatim>\<open>DeviceLookup\<close> returns no errors, \<^verbatim>\<open>GetPublicKey\<close>
  returns no error and \<^verbatim>\<open>EvaluateKey\<close> returns true and no error. It returns false
  when the login is missing, when the target does not parse, and when any API call
  it has made failed.
\<close>

theorem non_magic_key_accepted_iff:
  assumes "magic_NewPublicKey env = Inr mk"
    and "FingerprintLegacyMD5 env mk \<noteq> FingerprintLegacyMD5 env key"
  shows "(accepted (PublicKey env key) \<longleftrightarrow>
            (\<exists>tenant. GetPublicKey (FingerprintLegacyMD5 env key) tenant None
                        \<in> set (calls (PublicKey env key)))
            \<and> (\<exists>dev user. EvaluateKey (FingerprintLegacyMD5 env key) dev user (True, None)
                        \<in> set (calls (PublicKey env key))))
         \<and> (accepted (PublicKey env key) \<longleftrightarrow>
              (\<exists>sshid tag cs lookup.
                 ctx_user env = Some sshid \<and> NewTarget env sshid = Inr tag
                 \<and> build_lookup env tag = Inr (cs, lookup)
                 \<and> snd (api_DeviceLookup env lookup) = []
                 \<and> api_GetPublicKey env (FingerprintLegacyMD5 env key)
                      (TenantID (fst (api_DeviceLookup env lookup))) = None
                 \<and> api_EvaluateKey env (FingerprintLegacyMD5 env key)
                      (fst (api_DeviceLookup env lookup)) (Username tag) = (True, None)))
         \<and> (ctx_user env = None \<longrightarrow> \<not> accepted (PublicKey env key))
         \<and> (ctx_user env = Some login \<and> isl (NewTarget env login) \<longrightarrow>
              \<not> accepted (PublicKey env key))
         \<and> (list_ex call_failed (calls (PublicKey env key)) \<longrightarrow> \<not> accepted (PublicKey env key))"
proof (cases rule: PublicKey_cases [of env key])
  case no_user
  then show ?thesis by (simp add: reject_key_def)
next
  case (no_target sshid e)
  then show ?thesis by (simp add: reject_key_def)
next
  case (no_lookup sshid tag cs)
  with build_lookup_Inl [of env tag cs] show ?thesis by (auto simp: reject_key_def)
next
  case (lookup_failed sshid tag cs lookup)
  with build_lookup_Inr [of env tag cs lookup] show ?thesis by (auto simp: reject_key_def)
next
  case (resolved sshid tag cs lookup)
  note c = check_key_non_magic [OF assms, of tag "fst (api_DeviceLookup env lookup)"
      "cs @ [DeviceLookup lookup []]"]
  from resolved build_lookup_Inr [of env tag cs lookup] c show ?thesis
    by (auto simp: reject_key_def accept_key_def)
qed


theorem non_magic_key_accepted_iff_witness:
  "magic_NewPublicKey ex_env = Inr ''magic''
   \<and> FingerprintLegacyMD5 ex_env ''magic'' \<noteq> FingerprintLegacyMD5 ex_env ''user-key''
   \<and> accepted (PublicKey ex_env ''user-key'')
   \<and> \<not> list_ex call_failed (calls (PublicKey ex_env ''user-key''))"
proof -
  have m: "magic_NewPublicKey ex_env = Inr ''magic''"
    and f: "FingerprintLegacyMD5 ex_env ''magic'' \<noteq> FingerprintLegacyMD5 ex_env ''user-key''"
    by (simp_all add: ex_env_def)
  have "ctx_user ex_env = Some ''mydevice.example''
      \<and> NewTarget ex_env ''mydevice.example'' = Inr \<lparr>Data = ''mydevice.example'', Username = ''root''\<rparr>
      \<and> build_lookup ex_env \<lparr>Data = ''mydevice.example'', Username = ''root''\<rparr>
          = Inr ([], [(''domain'', ''example''), (''name'', ''mydevice'')])
      \<and> snd (api_DeviceLookup ex_env [(''domain'', ''example''), (''name'', ''mydevice'')]) = []
      \<and> api_GetPublicKey ex_env (FingerprintLegacyMD5 ex_env ''user-key'')
           (TenantID (fst (api_DeviceLookup ex_env
              [(''domain'', ''example''), (''name'', ''mydevice'')]))) = None
      \<and> api_EvaluateKey ex_env (FingerprintLegacyMD5 ex_env ''user-key'')
           (fst (api_DeviceLookup ex_env [(''domain'', ''example''), (''name'', ''mydevice'')]))
           (Username \<lparr>Data = ''mydevice.example'', Username = ''root''\<rparr>) = (True, None)"
    by (simp add: ex_env_def build_lookup_def)
  then have "\<exists>sshid tag cs lookup.
                 ctx_user ex_env = Some sshid \<and> NewTarget ex_env sshid = Inr tag
                 \<and> build_lookup ex_env tag = Inr (cs, lookup)
                 \<and> snd (api_DeviceLookup ex_env lookup) = []
                 \<and> api_GetPublicKey ex_env (FingerprintLegacyMD5 ex_env ''user-key'')
                      (TenantID (fst (api_DeviceLookup ex_env lookup))) = None
                 \<and> api_EvaluateKey ex_env (FingerprintLegacyMD5 ex_env ''user-key'')
                      (fst (api_DeviceLookup ex_env lookup)) (Username tag) = (True, None)"
    by blast
  with non_magic_key_accepted_iff [OF m f] have "accepted (PublicKey ex_env ''user-key'')
     \<and> \<not> list_ex call_failed (calls (PublicKey ex_env ''user-key''))"
    by blast
  with m f show ?thesis by simp
qed

text \<open>
  C4. For a presented key whose fingerprint equals that of the magic key,
  \<^verbatim>\<open>PublicKey\<close> calls neither \<^verbatim>\<open>GetPublicKey\<close> nor \<^verbatim>\<open>EvaluateKey\<close>, whatever it
  returns. It returns true exactly when the stages before the key check succeeded,
  that is when it has called \<^verbatim>\<open>DeviceLookup\<close> and got no errors; it then stores the
  fingerprint in the context.
\<close>

theorem magic_key_skips_evaluation:
  assumes "magic_NewPublicKey env = Inr mk"
    and "FingerprintLegacyMD5 env mk = FingerprintLegacyMD5 env key"
  shows "\<not> list_ex is_key_call (calls (PublicKey env key))
         \<and> (accepted (PublicKey env key) \<longleftrightarrow>
              (\<exists>lookup. DeviceLookup lookup [] \<in> set (calls (PublicKey env key))))
         \<and> (ctx_user env = Some sshid \<and> NewTarget env sshid = Inr tag
              \<and> build_lookup env tag = Inr (cs, lookup)
              \<and> snd (api_DeviceLookup env lookup) = [] \<longrightarrow>
              PublicKey env key =
                \<lparr>accepted = True, calls = cs @ [DeviceLookup lookup []],
                 ctx_public_key = Some (FingerprintLegacyMD5 env key)\<rparr>)"
proof (cases rule: PublicKey_cases [of env key])
  case no_user
  then show ?thesis by (auto simp: reject_key_def)
next
  case (no_target sshid' e)
  then show ?thesis by (auto simp: reject_key_def)
next
  case (no_lookup sshid' tag' cs')
  with build_lookup_Inl [of env tag' cs'] show ?thesis by (auto simp: reject_key_def)
next
  case (lookup_failed sshid' tag' cs' lookup')
  with build_lookup_Inr [of env tag' cs' lookup'] show ?thesis by (auto simp: reject_key_def)
next
  case (resolved sshid' tag' cs' lookup')
  note c = check_key_magic [OF assms, of tag' "fst (api_DeviceLookup env lookup')"
      "cs' @ [DeviceLookup lookup' []]"]
  from resolved build_lookup_Inr [of env tag' cs' lookup'] c show ?thesis
    by (auto simp: accept_key_def)
qed

theorem magic_key_skips_evaluation_witness:
  "magic_NewPublicKey ex_env = Inr ''magic''
   \<and> FingerprintLegacyMD5 ex_env ''magic'' = FingerprintLegacyMD5 ex_env ''magic''
   \<and> PublicKey ex_env ''magic'' =
       \<lparr>accepted = True,
        calls = [DeviceLookup [(''domain'', ''example''), (''name'', ''mydevice'')] []],
        ctx_public_key = Some ''magic''\<rparr>
   \<and> \<not> list_ex is_key_call (calls (PublicKey ex_env ''magic''))"
proof -
  have m: "magic_NewPublicKey ex_env = Inr ''magic''"
    and f: "FingerprintLegacyMD5 ex_env ''magic'' = FingerprintLegacyMD5 ex_env ''magic''"
    by (simp_all add: ex_env_def)
  have r: "ctx_user ex_env = Some ''mydevice.example''
      \<and> NewTarget ex_env ''mydevice.example'' = Inr \<lparr>Data = ''mydevice.example'', Username = ''root''\<rparr>
      \<and> build_lookup ex_env \<lparr>Data = ''mydevice.example'', Username = ''root''\<rparr>
          = Inr ([], [(''domain'', ''example''), (''name'', ''mydevice'')])
      \<and> snd (api_DeviceLookup ex_env [(''domain'', ''example''), (''name'', ''mydevice'')]) = []"
    by (simp add: ex_env_def build_lookup_def)
  have k: "FingerprintLegacyMD5 ex_env ''magic'' = ''magic''" by (simp add: ex_env_def)
  from magic_key_skips_evaluation [OF m f, of "''mydevice.example''"
      "\<lparr>Data = ''mydevice.example'', Username = ''root''\<rparr>" "[]"
      "[(''domain'', ''example''), (''name'', ''mydevice'')]"] r k m
  show ?thesis by simp
qed

end
